theory Spec2Isabelle
  imports Complex_Main
begin

section \<open>Numbers\<close>

text \<open>
  A JavaScript number is a double. A finite double is modelled by a real and the three
  special values are kept. An arithmetic result is the exact real result, made
  \<open>Infinity\<close> or \<open>-Infinity\<close> where the double overflows (\<open>double\<close> below); the rounding
  error of the doubles is not modelled, and the two zeros are one.
\<close>

datatype jsnum = NaN | NInf | Fin real | PInf

text \<open>\<open>Math.min\<close> and \<open>Math.max\<close> of two arguments, and of an argument list
  (\<open>Math.min()\<close> is \<open>Infinity\<close>, \<open>Math.max()\<close> is \<open>-Infinity\<close>).\<close>

fun min2 :: "jsnum \<Rightarrow> jsnum \<Rightarrow> jsnum" where
  "min2 NaN b = NaN"
| "min2 a NaN = NaN"
| "min2 NInf b = NInf"
| "min2 a NInf = NInf"
| "min2 PInf b = b"
| "min2 a PInf = a"
| "min2 (Fin a) (Fin b) = Fin (min a b)"

fun max2 :: "jsnum \<Rightarrow> jsnum \<Rightarrow> jsnum" where
  "max2 NaN b = NaN"
| "max2 a NaN = NaN"
| "max2 PInf b = PInf"
| "max2 a PInf = PInf"
| "max2 NInf b = b"
| "max2 a NInf = a"
| "max2 (Fin a) (Fin b) = Fin (max a b)"

definition Math_min :: "jsnum list \<Rightarrow> jsnum" where
  "Math_min vs = foldl min2 PInf vs"

definition Math_max :: "jsnum list \<Rightarrow> jsnum" where
  "Math_max vs = foldl max2 NInf vs"

text \<open>
  The double that an exact result becomes: under round to nearest, a magnitude of
  \<open>2^1024 - 2^970\<close> (the largest double plus half a unit in its last place) or more
  overflows.
\<close>

definition overflowThreshold :: real where
  "overflowThreshold = 2 ^ 1024 - 2 ^ 970"

definition double :: "real \<Rightarrow> jsnum" where
  "double v = (if overflowThreshold \<le> v then PInf
               else if v \<le> - overflowThreshold then NInf
               else Fin v)"

text \<open>The subtraction \<open>a - b\<close> of JavaScript.\<close>

fun js_sub :: "jsnum \<Rightarrow> jsnum \<Rightarrow> jsnum" where
  "js_sub (Fin a) (Fin b) = double (a - b)"
| "js_sub NaN b = NaN"
| "js_sub a NaN = NaN"
| "js_sub PInf PInf = NaN"
| "js_sub NInf NInf = NaN"
| "js_sub PInf b = PInf"
| "js_sub a NInf = PInf"
| "js_sub NInf b = NInf"
| "js_sub a PInf = NInf"

section \<open>Path segments\<close>

text \<open>
  svgpath keeps a path as an array of segments \<open>[command, param1, param2, ...]\<close>. After
  \<open>abs()\<close> every command letter is upper case and the number of parameters is fixed by
  the letter, so a segment is a constructor with that many numbers. There is no arc:
  \<open>unarc()\<close> has replaced every \<open>A\<close> before \<open>normalizePathTo01\<close> reads \<open>path.segments\<close>.
  The numbers of a decomposed path are finite (\<open>real segment\<close>); those of a transformed
  path can be any JavaScript number (\<open>jsnum segment\<close>).
\<close>

datatype 'a segment =
    MoveTo 'a 'a
  | LineTo 'a 'a
  | HorizontalLineTo 'a
  | VerticalLineTo 'a
  | CubicCurve 'a 'a 'a 'a 'a 'a
  | SmoothCubicCurve 'a 'a 'a 'a
  | QuadraticCurve 'a 'a 'a 'a
  | SmoothQuadraticCurve 'a 'a
  | ClosePath

section \<open>calculateBounds\<close>

text \<open>The object \<open>{ minX, minY, maxX, maxY }\<close> that \<open>calculateBounds\<close> returns.\<close>

record bounds =
  minX :: jsnum
  minY :: jsnum
  maxX :: jsnum
  maxY :: jsnum

text \<open>The local variables of \<open>calculateBounds\<close>: the four bounds and the current point.\<close>

record tracker = bounds +
  currentX :: real
  currentY :: real

definition initial :: tracker where
  "initial = \<lparr>minX = PInf, minY = PInf, maxX = NInf, maxY = NInf, currentX = 0, currentY = 0\<rparr>"

text \<open>
  The body of \<open>segments.forEach\<close>: one equation for each \<open>case\<close> of the \<open>switch\<close>, in the
  order of the assignments. \<open>case 'A'\<close>, which folds the end point of an arc and moves the
  current point there, has no equation, there being no arc segment; nor has the silent
  default of the \<open>switch\<close>, there being no other letter.
\<close>

fun step :: "tracker \<Rightarrow> real segment \<Rightarrow> tracker" where
  "step t (MoveTo x y) =
     t\<lparr>currentX := x, currentY := y,
       minX := Math_min [minX t, Fin x], minY := Math_min [minY t, Fin y],
       maxX := Math_max [maxX t, Fin x], maxY := Math_max [maxY t, Fin y]\<rparr>"
| "step t (LineTo x y) =
     t\<lparr>currentX := x, currentY := y,
       minX := Math_min [minX t, Fin x], minY := Math_min [minY t, Fin y],
       maxX := Math_max [maxX t, Fin x], maxY := Math_max [maxY t, Fin y]\<rparr>"
| "step t (HorizontalLineTo x) =
     t\<lparr>currentX := x,
       minX := Math_min [minX t, Fin x], maxX := Math_max [maxX t, Fin x]\<rparr>"
| "step t (VerticalLineTo y) =
     t\<lparr>currentY := y,
       minY := Math_min [minY t, Fin y], maxY := Math_max [maxY t, Fin y]\<rparr>"
| "step t (CubicCurve x1 y1 x2 y2 x y) =
     t\<lparr>minX := Math_min [minX t, Fin x1, Fin x2, Fin x],
       minY := Math_min [minY t, Fin y1, Fin y2, Fin y],
       maxX := Math_max [maxX t, Fin x1, Fin x2, Fin x],
       maxY := Math_max [maxY t, Fin y1, Fin y2, Fin y],
       currentX := x, currentY := y\<rparr>"
| "step t (SmoothCubicCurve x2 y2 x y) =
     t\<lparr>minX := Math_min [minX t, Fin x2, Fin x],
       minY := Math_min [minY t, Fin y2, Fin y],
       maxX := Math_max [maxX t, Fin x2, Fin x],
       maxY := Math_max [maxY t, Fin y2, Fin y],
       currentX := x, currentY := y\<rparr>"
| "step t (QuadraticCurve x1 y1 x y) =
     t\<lparr>minX := Math_min [minX t, Fin x1, Fin x],
       minY := Math_min [minY t, Fin y1, Fin y],
       maxX := Math_max [maxX t, Fin x1, Fin x],
       maxY := Math_max [maxY t, Fin y1, Fin y],
       currentX := x, currentY := y\<rparr>"
| "step t (SmoothQuadraticCurve x y) =
     t\<lparr>minX := Math_min [minX t, Fin x], minY := Math_min [minY t, Fin y],
       maxX := Math_max [maxX t, Fin x], maxY := Math_max [maxY t, Fin y],
       currentX := x, currentY := y\<rparr>"
| "step t ClosePath = t"

definition walk :: "tracker \<Rightarrow> real segment list \<Rightarrow> tracker" where
  "walk t segments = foldl step t segments"

definition calculateBounds :: "real segment list \<Rightarrow> bounds" where
  "calculateBounds segments = bounds.truncate (walk initial segments)"

text \<open>The command letter \<open>segment[0]\<close> of a segment.\<close>

fun command :: "'a segment \<Rightarrow> char" where
  "command (MoveTo x y) = CHR ''M''"
| "command (LineTo x y) = CHR ''L''"
| "command (HorizontalLineTo x) = CHR ''H''"
| "command (VerticalLineTo y) = CHR ''V''"
| "command (CubicCurve x1 y1 x2 y2 x y) = CHR ''C''"
| "command (SmoothCubicCurve x2 y2 x y) = CHR ''S''"
| "command (QuadraticCurve x1 y1 x y) = CHR ''Q''"
| "command (SmoothQuadraticCurve x y) = CHR ''T''"
| "command ClosePath = CHR ''Z''"

text \<open>The coordinates a segment carries on each axis, in the order of its parameters.\<close>

fun xCoords :: "'a segment \<Rightarrow> 'a list" where
  "xCoords (MoveTo x y) = [x]"
| "xCoords (LineTo x y) = [x]"
| "xCoords (HorizontalLineTo x) = [x]"
| "xCoords (VerticalLineTo y) = []"
| "xCoords (CubicCurve x1 y1 x2 y2 x y) = [x1, x2, x]"
| "xCoords (SmoothCubicCurve x2 y2 x y) = [x2, x]"
| "xCoords (QuadraticCurve x1 y1 x y) = [x1, x]"
| "xCoords (SmoothQuadraticCurve x y) = [x]"
| "xCoords ClosePath = []"

fun yCoords :: "'a segment \<Rightarrow> 'a list" where
  "yCoords (MoveTo x y) = [y]"
| "yCoords (LineTo x y) = [y]"
| "yCoords (HorizontalLineTo x) = []"
| "yCoords (VerticalLineTo y) = [y]"
| "yCoords (CubicCurve x1 y1 x2 y2 x y) = [y1, y2, y]"
| "yCoords (SmoothCubicCurve x2 y2 x y) = [y2, y]"
| "yCoords (QuadraticCurve x1 y1 x y) = [y1, y]"
| "yCoords (SmoothQuadraticCurve x y) = [y]"
| "yCoords ClosePath = []"

definition pathXs :: "'a segment list \<Rightarrow> 'a list" where
  "pathXs segments = concat (map xCoords segments)"

definition pathYs :: "'a segment list \<Rightarrow> 'a list" where
  "pathYs segments = concat (map yCoords segments)"

section \<open>The svgpath operations that normalizePathTo01 calls\<close>

text \<open>
  \<open>map_coords f g\<close> applies \<open>f\<close> to every x parameter and \<open>g\<close> to every y parameter of a
  segment and keeps its command letter; \<open>numbers\<close> reads the finite numbers of a
  decomposed path as JavaScript numbers.
\<close>

fun map_coords :: "('a \<Rightarrow> 'b) \<Rightarrow> ('a \<Rightarrow> 'b) \<Rightarrow> 'a segment \<Rightarrow> 'b segment" where
  "map_coords f g (MoveTo x y) = MoveTo (f x) (g y)"
| "map_coords f g (LineTo x y) = LineTo (f x) (g y)"
| "map_coords f g (HorizontalLineTo x) = HorizontalLineTo (f x)"
| "map_coords f g (VerticalLineTo y) = VerticalLineTo (g y)"
| "map_coords f g (CubicCurve x1 y1 x2 y2 x y) =
     CubicCurve (f x1) (g y1) (f x2) (g y2) (f x) (g y)"
| "map_coords f g (SmoothCubicCurve x2 y2 x y) = SmoothCubicCurve (f x2) (g y2) (f x) (g y)"
| "map_coords f g (QuadraticCurve x1 y1 x y) = QuadraticCurve (f x1) (g y1) (f x) (g y)"
| "map_coords f g (SmoothQuadraticCurve x y) = SmoothQuadraticCurve (f x) (g y)"
| "map_coords f g ClosePath = ClosePath"

definition numbers :: "real segment list \<Rightarrow> jsnum segment list" where
  "numbers segments = map (map_coords Fin Fin) segments"

text \<open>
  Modelled from the spec: svgpath's \<open>translate(tx, ty)\<close> and \<open>scale(sx, sy)\<close>, which are
  not in this repository. The spec (section 3) has a transform applied as
  \<open>x' = (x + tx) * sx\<close>, \<open>y' = (y + ty) * sy\<close> to every coordinate in every segment, both
  end point and control point coordinates, the translation first and the scaling second
  (section 4.4), and the kind of every segment unchanged. The sum and the product are
  the exact ones, extended to the special values as JavaScript extends them
  (\<open>Infinity - Infinity\<close> and \<open>0 * Infinity\<close> are \<open>NaN\<close>): the transform of the spec is
  applied to a coordinate as one computation, whose result becomes a double in
  \<open>svgpath_round\<close>.
\<close>

fun js_add :: "jsnum \<Rightarrow> jsnum \<Rightarrow> jsnum" where
  "js_add (Fin a) (Fin b) = Fin (a + b)"
| "js_add NaN b = NaN"
| "js_add a NaN = NaN"
| "js_add PInf NInf = NaN"
| "js_add NInf PInf = NaN"
| "js_add PInf b = PInf"
| "js_add a PInf = PInf"
| "js_add NInf b = NInf"
| "js_add a NInf = NInf"

fun js_mul :: "jsnum \<Rightarrow> jsnum \<Rightarrow> jsnum" where
  "js_mul (Fin a) (Fin b) = Fin (a * b)"
| "js_mul NaN b = NaN"
| "js_mul a NaN = NaN"
| "js_mul (Fin a) PInf = (if a = 0 then NaN else if 0 < a then PInf else NInf)"
| "js_mul (Fin a) NInf = (if a = 0 then NaN else if 0 < a then NInf else PInf)"
| "js_mul PInf (Fin b) = (if b = 0 then NaN else if 0 < b then PInf else NInf)"
| "js_mul NInf (Fin b) = (if b = 0 then NaN else if 0 < b then NInf else PInf)"
| "js_mul PInf PInf = PInf"
| "js_mul PInf NInf = NInf"
| "js_mul NInf PInf = NInf"
| "js_mul NInf NInf = PInf"

definition svgpath_translate :: "jsnum \<Rightarrow> jsnum \<Rightarrow> jsnum segment list \<Rightarrow> jsnum segment list" where
  "svgpath_translate tx ty segments =
     map (map_coords (\<lambda>x. js_add x tx) (\<lambda>y. js_add y ty)) segments"

definition svgpath_scale :: "jsnum \<Rightarrow> jsnum \<Rightarrow> jsnum segment list \<Rightarrow> jsnum segment list" where
  "svgpath_scale sx sy segments =
     map (map_coords (\<lambda>x. js_mul x sx) (\<lambda>y. js_mul y sy)) segments"

text \<open>
  Modelled from the spec: svgpath's \<open>round(d)\<close>, which is not in this repository. The spec
  (section 4.4) has the final numeric values rounded to a fixed precision of 6 decimal
  digits. \<open>toFixed d x\<close> is the number \<open>+x.toFixed(d)\<close> of JavaScript for a finite \<open>x\<close>: the
  nearest multiple of \<open>10^-d\<close>, a tie going away from zero. \<open>NaN\<close>, \<open>Infinity\<close> and
  \<open>-Infinity\<close> round to themselves.
\<close>

definition toFixed :: "nat \<Rightarrow> real \<Rightarrow> real" where
  "toFixed d x = sgn x * of_int \<lfloor>\<bar>x\<bar> * 10 ^ d + 1 / 2\<rfloor> / 10 ^ d"

fun roundNumber :: "nat \<Rightarrow> jsnum \<Rightarrow> jsnum" where
  "roundNumber d (Fin v) = (case double v of Fin u \<Rightarrow> Fin (toFixed d u) | n \<Rightarrow> n)"
| "roundNumber d n = n"

definition svgpath_round :: "nat \<Rightarrow> jsnum segment list \<Rightarrow> jsnum segment list" where
  "svgpath_round d segments = map (map_coords (roundNumber d) (roundNumber d)) segments"

text \<open>What \<open>round(d)\<close> makes of finite coordinates that are doubles as they are.\<close>

definition roundedTo :: "nat \<Rightarrow> real segment list \<Rightarrow> real segment list" where
  "roundedTo d segments = map (map_coords (toFixed d) (toFixed d)) segments"

section \<open>normalizePathTo01\<close>

text \<open>\<open>const width = maxX - minX\<close> and \<open>const height = maxY - minY\<close>.\<close>

definition boxWidth :: "bounds \<Rightarrow> jsnum" where
  "boxWidth b = js_sub (maxX b) (minX b)"

definition boxHeight :: "bounds \<Rightarrow> jsnum" where
  "boxHeight b = js_sub (maxY b) (minY b)"

text \<open>
  \<open>pathString.trim()\<close>. A string is a list of 8-bit characters here; the white space and
  line terminators of JavaScript below 256 are tab, line feed, vertical tab, form feed,
  carriage return, space and no-break space.
\<close>

definition isWhiteSpace :: "char \<Rightarrow> bool" where
  "isWhiteSpace c = (c \<in> set [CHR 0x09, CHR 0x0A, CHR 0x0B, CHR 0x0C, CHR 0x0D, CHR 0x20, CHR 0xA0])"

definition trim :: "string \<Rightarrow> string" where
  "trim s = rev (dropWhile isWhiteSpace (rev (dropWhile isWhiteSpace s)))"

text \<open>What svgpath throws, whatever it is: \<open>catch (error)\<close> does not look at it.\<close>

datatype error = Exception

text \<open>
  What \<open>normalizePathTo01\<close> returns: a string it has at hand (\<open>pathString\<close> itself, which
  is \<open>null\<close> when the attribute is missing, or a literal), or \<open>toString()\<close> of a segment
  sequence. svgpath's serialiser is not in this repository and stays a constructor.
  \<open>NonFinite\<close> stands for the runs in which \<open>calculateBounds\<close> left \<open>Infinity\<close> on an axis,
  no segment having a coordinate there, which this model does not follow. A sequence
  that starts with \<open>M\<close>, as every non-empty result of svgpath's parser does, never gets
  there.
\<close>

datatype outcome = Returned "string option" | ToString "jsnum segment list" | NonFinite

text \<open>
  \<open>1 / height\<close> and \<open>1 / width\<close>. The divisor is never the zero of JavaScript there; for
  a zero, whose sign this model does not keep, \<open>reciprocal\<close> is \<open>Infinity\<close>.
\<close>

fun reciprocal :: "jsnum \<Rightarrow> jsnum" where
  "reciprocal (Fin v) = (if v = 0 then PInf else double (1 / v))"
| "reciprocal PInf = Fin 0"
| "reciprocal NInf = Fin 0"
| "reciprocal NaN = NaN"

text \<open>
  The parameter \<open>svgpath\<close> stands for \<open>svgpath(pathString).abs().unarc().unshort()\<close>
  followed by the read of \<open>path.segments\<close>: \<open>Inl\<close> when the library throws. svgpath does
  not throw on a malformed text: it records the error in \<open>path.err\<close>, which
  \<open>normalizePathTo01\<close> never reads, and keeps the segments it has parsed before the
  error.
\<close>

definition normalizePathTo01 :: "(string \<Rightarrow> error + real segment list) \<Rightarrow> string option \<Rightarrow> outcome" where
  "normalizePathTo01 svgpath pathString =
     (case pathString of
        None \<Rightarrow> Returned pathString
      | Some s \<Rightarrow>
          if s = [] \<or> trim s = [] then Returned pathString
          else
            (case svgpath s of
               Inl err \<Rightarrow> Returned pathString
             | Inr segments \<Rightarrow>
                 if segments = [] then Returned pathString
                 else
                   let bounds = calculateBounds segments;
                       width = boxWidth bounds;
                       height = boxHeight bounds
                   in
                     if width = Fin 0 \<and> height = Fin 0 then Returned (Some ''M0.5,0.5'')
                     else
                       (case (minX bounds, minY bounds) of
                          (Fin mnX, Fin mnY) \<Rightarrow>
                            if width = Fin 0 then
                              ToString
                                (svgpath_round 6
                                  (svgpath_translate (Fin (1 / 2)) (Fin 0)
                                    (svgpath_scale (Fin 1) (reciprocal height)
                                      (svgpath_translate (Fin (- mnX)) (Fin (- mnY))
                                        (numbers segments)))))
                            else if height = Fin 0 then
                              ToString
                                (svgpath_round 6
                                  (svgpath_translate (Fin 0) (Fin (1 / 2))
                                    (svgpath_scale (reciprocal width) (Fin 1)
                                      (svgpath_translate (Fin (- mnX)) (Fin (- mnY))
                                        (numbers segments)))))
                            else
                              ToString
                                (svgpath_round 6
                                  (svgpath_scale (reciprocal width) (reciprocal height)
                                    (svgpath_translate (Fin (- mnX)) (Fin (- mnY))
                                      (numbers segments))))
                        | _ \<Rightarrow> NonFinite)))"

text \<open>A decomposer that yields the given sequence for every text, for concrete runs.\<close>

definition yields :: "real segment list \<Rightarrow> string \<Rightarrow> error + real segment list" where
  "yields segments s = Inr segments"

definition throws :: "string \<Rightarrow> error + real segment list" where
  "throws s = Inl Exception"

section \<open>The bounding box as the extremes of the coordinates\<close>

lemma min2_PInf_left: "min2 PInf a = a"
  by (cases a) simp_all

lemma max2_NInf_left: "max2 NInf a = a"
  by (cases a) simp_all

lemma Math_min_Cons: "Math_min (m # vs) = foldl min2 m vs"
  by (simp add: Math_min_def min2_PInf_left)

lemma Math_max_Cons: "Math_max (m # vs) = foldl max2 m vs"
  by (simp add: Math_max_def max2_NInf_left)

lemma step_minX: "minX (step t a) = foldl min2 (minX t) (map Fin (xCoords a))"
  by (cases a) (simp_all add: Math_min_Cons)

lemma step_maxX: "maxX (step t a) = foldl max2 (maxX t) (map Fin (xCoords a))"
  by (cases a) (simp_all add: Math_max_Cons)

lemma step_minY: "minY (step t a) = foldl min2 (minY t) (map Fin (yCoords a))"
  by (cases a) (simp_all add: Math_min_Cons)

lemma step_maxY: "maxY (step t a) = foldl max2 (maxY t) (map Fin (yCoords a))"
  by (cases a) (simp_all add: Math_max_Cons)

lemma walk_minX: "minX (walk t segs) = foldl min2 (minX t) (map Fin (pathXs segs))"
  by (induction segs arbitrary: t) (simp_all add: walk_def pathXs_def step_minX)

lemma walk_maxX: "maxX (walk t segs) = foldl max2 (maxX t) (map Fin (pathXs segs))"
  by (induction segs arbitrary: t) (simp_all add: walk_def pathXs_def step_maxX)

lemma walk_minY: "minY (walk t segs) = foldl min2 (minY t) (map Fin (pathYs segs))"
  by (induction segs arbitrary: t) (simp_all add: walk_def pathYs_def step_minY)

lemma walk_maxY: "maxY (walk t segs) = foldl max2 (maxY t) (map Fin (pathYs segs))"
  by (induction segs arbitrary: t) (simp_all add: walk_def pathYs_def step_maxY)

lemma foldl_min2_Fin: "foldl min2 (Fin a) (map Fin vs) = Fin (Min (set (a # vs)))"
proof (induction vs arbitrary: a)
  case Nil
  show ?case by simp
next
  case (Cons v vs)
  have "Min (set (min a v # vs)) = Min (set (a # v # vs))"
    by (cases "vs = []") (simp_all add: min.assoc)
  with Cons show ?case by simp
qed

lemma foldl_max2_Fin: "foldl max2 (Fin a) (map Fin vs) = Fin (Max (set (a # vs)))"
proof (induction vs arbitrary: a)
  case Nil
  show ?case by simp
next
  case (Cons v vs)
  have "Max (set (max a v # vs)) = Max (set (a # v # vs))"
    by (cases "vs = []") (simp_all add: max.assoc)
  with Cons show ?case by simp
qed

lemma fold_from_PInf:
  "foldl min2 PInf (map Fin vs) = (if vs = [] then PInf else Fin (Min (set vs)))"
  by (cases vs) (simp_all add: foldl_min2_Fin)

lemma fold_from_NInf:
  "foldl max2 NInf (map Fin vs) = (if vs = [] then NInf else Fin (Max (set vs)))"
  by (cases vs) (simp_all add: foldl_max2_Fin)

lemma calculateBounds_eq:
  "calculateBounds segs =
     \<lparr>minX = (if pathXs segs = [] then PInf else Fin (Min (set (pathXs segs)))),
      minY = (if pathYs segs = [] then PInf else Fin (Min (set (pathYs segs)))),
      maxX = (if pathXs segs = [] then NInf else Fin (Max (set (pathXs segs)))),
      maxY = (if pathYs segs = [] then NInf else Fin (Max (set (pathYs segs))))\<rparr>"
  by (simp add: calculateBounds_def bounds.truncate_def walk_minX walk_maxX walk_minY walk_maxY
      initial_def fold_from_PInf fold_from_NInf)

lemma calculateBounds_Nil:
  "calculateBounds [] = \<lparr>minX = PInf, minY = PInf, maxX = NInf, maxY = NInf\<rparr>"
  by (simp add: calculateBounds_eq pathXs_def pathYs_def)

lemma boxWidth_Nil: "boxWidth (calculateBounds []) = NInf"
  by (simp add: calculateBounds_Nil boxWidth_def)

lemma walk_filter_ClosePath: "walk t (filter (\<lambda>a. a \<noteq> ClosePath) segs) = walk t segs"
  by (induction segs arbitrary: t) (simp_all add: walk_def)

lemma pathYs_without_H:
  "pathYs (filter (\<lambda>a. command a \<noteq> CHR ''H'') segs) = pathYs segs"
proof (induction segs)
  case Nil
  show ?case by simp
next
  case (Cons a segs)
  then show ?case by (cases a) (simp_all add: pathYs_def)
qed

lemma pathXs_without_V:
  "pathXs (filter (\<lambda>a. command a \<noteq> CHR ''V'') segs) = pathXs segs"
proof (induction segs)
  case Nil
  show ?case by simp
next
  case (Cons a segs)
  then show ?case by (cases a) (simp_all add: pathXs_def)
qed

lemma calculateBounds_without_ClosePath:
  "calculateBounds (filter (\<lambda>a. a \<noteq> ClosePath) segs) = calculateBounds segs"
  by (simp add: calculateBounds_def walk_filter_ClosePath)

lemma calculateBounds_without_H:
  "minY (calculateBounds (filter (\<lambda>a. command a \<noteq> CHR ''H'') segs)) = minY (calculateBounds segs)"
  "maxY (calculateBounds (filter (\<lambda>a. command a \<noteq> CHR ''H'') segs)) = maxY (calculateBounds segs)"
  by (simp_all add: calculateBounds_eq pathYs_without_H)

lemma calculateBounds_without_V:
  "minX (calculateBounds (filter (\<lambda>a. command a \<noteq> CHR ''V'') segs)) = minX (calculateBounds segs)"
  "maxX (calculateBounds (filter (\<lambda>a. command a \<noteq> CHR ''V'') segs)) = maxX (calculateBounds segs)"
  by (simp_all add: calculateBounds_eq pathXs_without_V)

section \<open>Rounding and the coordinate maps\<close>

lemma toFixed_0: "toFixed d 0 = 0"
  by (simp add: toFixed_def)

lemma floor_pow10_half: "\<lfloor>(10::real) ^ d + 1 / 2\<rfloor> = 10 ^ d"
  by (rule floor_unique) simp_all

lemma toFixed_1: "toFixed d 1 = 1"
  by (simp add: toFixed_def floor_pow10_half)


lemma toFixed_unit:
  assumes "0 \<le> v" and "v \<le> 1"
  shows "0 \<le> toFixed d v \<and> toFixed d v \<le> 1"
proof (cases "v = 0")
  case True
  then show ?thesis by (simp add: toFixed_0)
next
  case False
  with assms have pos: "0 < v" by simp
  let ?n = "\<lfloor>\<bar>v\<bar> * 10 ^ d + 1 / 2\<rfloor>"
  have "0 \<le> \<bar>v\<bar> * 10 ^ d + 1 / 2" by simp
  then have n0: "0 \<le> ?n" by (simp only: zero_le_floor)
  have "v * 10 ^ d \<le> 1 * 10 ^ d" using assms(2) by (intro mult_right_mono) simp_all
  moreover have "\<bar>v\<bar> = v" using pos by simp
  moreover have "(of_int (10 ^ d + 1) :: real) = 10 ^ d + 1" by simp
  ultimately have "\<bar>v\<bar> * 10 ^ d + 1 / 2 < of_int (10 ^ d + 1)" by linarith
  then have "?n < 10 ^ d + 1" by (simp only: floor_less_iff)
  then have "?n \<le> 10 ^ d" by simp
  then have "(of_int ?n :: real) \<le> of_int (10 ^ d)" by (simp only: of_int_le_iff)
  then have n1: "(of_int ?n :: real) \<le> 10 ^ d" by simp
  have "toFixed d v = of_int ?n / 10 ^ d" using pos by (simp add: toFixed_def)
  moreover have "0 \<le> (of_int ?n :: real) / 10 ^ d" using n0 by simp
  moreover have "(of_int ?n :: real) / 10 ^ d \<le> 1" using n1 by (simp add: divide_le_eq)
  ultimately show ?thesis by simp
qed

lemma toFixed_close: "\<bar>toFixed d v - v\<bar> \<le> 1 / (2 * 10 ^ d)"
proof -
  let ?e = "(10::real) ^ d"
  let ?n = "\<lfloor>\<bar>v\<bar> * ?e + 1 / 2\<rfloor>"
  have e: "0 < ?e" by simp
  have lo: "of_int ?n \<le> \<bar>v\<bar> * ?e + 1 / 2" by (rule of_int_floor_le)
  have hi: "\<bar>v\<bar> * ?e + 1 / 2 < of_int ?n + 1" by linarith
  have d: "\<bar>of_int ?n - \<bar>v\<bar> * ?e\<bar> \<le> 1 / 2" using lo hi by linarith
  have v: "sgn v * \<bar>v\<bar> = v" by (rule sgn_mult_abs)
  have "sgn v * ((of_int ?n - \<bar>v\<bar> * ?e) / ?e) = sgn v * of_int ?n / ?e - sgn v * \<bar>v\<bar>"
    using e by (simp add: field_simps)
  then have "toFixed d v - v = sgn v * ((of_int ?n - \<bar>v\<bar> * ?e) / ?e)"
    by (simp only: v toFixed_def)
  then have "\<bar>toFixed d v - v\<bar> = \<bar>sgn v\<bar> * (\<bar>of_int ?n - \<bar>v\<bar> * ?e\<bar> / ?e)"
    by (simp add: abs_mult)
  also have "\<dots> \<le> 1 * ((1 / 2) / ?e)"
    using d e by (intro mult_mono divide_right_mono) (simp_all add: abs_sgn_eq)
  finally show ?thesis by simp
qed

lemma toFixed_idem: "toFixed d (toFixed d v) = toFixed d v"
proof -
  let ?e = "(10::real) ^ d"
  let ?n = "\<lfloor>\<bar>v\<bar> * ?e + 1 / 2\<rfloor>"
  have e: "0 < ?e" by simp
  have "0 \<le> \<bar>v\<bar> * ?e + 1 / 2" by simp
  then have n0: "0 \<le> ?n" by (simp only: zero_le_floor)
  show ?thesis
  proof (cases "?n = 0 \<or> v = 0")
    case True
    then have "toFixed d v = 0" by (auto simp add: toFixed_def)
    then show ?thesis by (simp add: toFixed_0)
  next
    case False
    then have "?n \<noteq> 0" and v: "v \<noteq> 0" by blast+
    with n0 have n: "0 < ?n" by linarith
    let ?r = "sgn v * of_int ?n / ?e"
    have r: "toFixed d v = ?r" by (simp add: toFixed_def)
    have sr: "sgn ?r = sgn v" using n e v by (simp add: sgn_mult)
    have "\<bar>?r\<bar> = of_int ?n / ?e" using n v by (simp add: abs_mult abs_sgn_eq)
    then have "\<bar>?r\<bar> * ?e + 1 / 2 = of_int ?n + 1 / 2" by simp
    then have "\<lfloor>\<bar>?r\<bar> * ?e + 1 / 2\<rfloor> = ?n" by (simp only:) (rule floor_unique, simp_all)
    then have "toFixed d ?r = sgn ?r * of_int ?n / ?e" by (simp only: toFixed_def)
    then show ?thesis by (simp only: r sr)
  qed
qed

lemma command_map_coords: "command (map_coords f g a) = command a"
  by (cases a) simp_all

lemma xCoords_map_coords: "xCoords (map_coords f g a) = map f (xCoords a)"
  by (cases a) simp_all

lemma yCoords_map_coords: "yCoords (map_coords f g a) = map g (yCoords a)"
  by (cases a) simp_all

lemma pathXs_map_coords: "pathXs (map (map_coords f g) segs) = map f (pathXs segs)"
  by (induction segs) (simp_all add: pathXs_def xCoords_map_coords)

lemma pathYs_map_coords: "pathYs (map (map_coords f g) segs) = map g (pathYs segs)"
  by (induction segs) (simp_all add: pathYs_def yCoords_map_coords)

lemma map_coords_map_coords:
  "map_coords f g (map_coords f' g' a) = map_coords (\<lambda>x. f (f' x)) (\<lambda>y. g (g' y)) a"
  by (cases a) simp_all

lemma map_coords_agree:
  "(\<forall>x\<in>set (xCoords a). f x = f' x) \<Longrightarrow> (\<forall>y\<in>set (yCoords a). g y = g' y) \<Longrightarrow>
     map_coords f g a = map_coords f' g' a"
  by (cases a) simp_all

lemma map_map_coords_agree:
  "(\<forall>x\<in>set (pathXs segs). f x = f' x) \<Longrightarrow> (\<forall>y\<in>set (pathYs segs). g y = g' y) \<Longrightarrow>
     map (map_coords f g) segs = map (map_coords f' g') segs"
  by (induction segs) (simp_all add: pathXs_def pathYs_def map_coords_agree)

section \<open>Overflow\<close>

lemma one_lt_overflowThreshold: "1 < overflowThreshold"
  by (simp add: overflowThreshold_def)

lemma double_unit: "0 \<le> v \<Longrightarrow> v \<le> 1 \<Longrightarrow> double v = Fin v"
  using one_lt_overflowThreshold by (simp add: double_def)

lemma double_Fin: "double v = Fin w \<Longrightarrow> w = v"
  by (simp add: double_def split: if_splits)

lemma roundNumber_unit: "0 \<le> v \<Longrightarrow> v \<le> 1 \<Longrightarrow> roundNumber d (Fin v) = Fin (toFixed d v)"
  by (simp add: double_unit)

lemma finite_width:
  "boxWidth (calculateBounds segs) = Fin w \<Longrightarrow>
     pathXs segs \<noteq> [] \<and> w = Max (set (pathXs segs)) - Min (set (pathXs segs))
     \<and> minX (calculateBounds segs) = Fin (Min (set (pathXs segs)))"
  by (auto simp add: calculateBounds_eq boxWidth_def dest: double_Fin split: if_splits)

lemma finite_height:
  "boxHeight (calculateBounds segs) = Fin h \<Longrightarrow>
     pathYs segs \<noteq> [] \<and> h = Max (set (pathYs segs)) - Min (set (pathYs segs))
     \<and> minY (calculateBounds segs) = Fin (Min (set (pathYs segs)))"
  by (auto simp add: calculateBounds_eq boxHeight_def dest: double_Fin split: if_splits)

lemma pathXs_nonempty: "pathXs segs \<noteq> [] \<Longrightarrow> segs \<noteq> []"
  by (auto simp add: pathXs_def)

lemma trim_nonempty: "trim s \<noteq> [] \<Longrightarrow> s \<noteq> []"
  by (auto simp add: trim_def)

section \<open>The transforms on finite numbers\<close>

lemma command_numbers: "map command (numbers segs) = map command segs"
  by (simp add: numbers_def command_map_coords comp_def)

lemma command_svgpath_translate: "map command (svgpath_translate tx ty segs) = map command segs"
  by (simp add: svgpath_translate_def command_map_coords comp_def)

lemma command_svgpath_scale: "map command (svgpath_scale sx sy segs) = map command segs"
  by (simp add: svgpath_scale_def command_map_coords comp_def)

lemma command_svgpath_round: "map command (svgpath_round d segs) = map command segs"
  by (simp add: svgpath_round_def command_map_coords comp_def)

lemma command_roundedTo: "map command (roundedTo d segs) = map command segs"
  by (simp add: roundedTo_def command_map_coords comp_def)

lemma scaled_numbers:
  "svgpath_scale (Fin sx) (Fin sy) (svgpath_translate (Fin tx) (Fin ty) (numbers segs))
     = numbers (map (map_coords (\<lambda>x. (x + tx) * sx) (\<lambda>y. (y + ty) * sy)) segs)"
  by (simp add: svgpath_scale_def svgpath_translate_def numbers_def map_coords_map_coords)


lemma round_numbers:
  assumes "\<forall>x\<in>set (pathXs segs). 0 \<le> x \<and> x \<le> 1" and "\<forall>y\<in>set (pathYs segs). 0 \<le> y \<and> y \<le> 1"
  shows "svgpath_round d (numbers segs) = numbers (roundedTo d segs)"
proof -
  have "map (map_coords (\<lambda>x. roundNumber d (Fin x)) (\<lambda>y. roundNumber d (Fin y))) segs
      = map (map_coords (\<lambda>x. Fin (toFixed d x)) (\<lambda>y. Fin (toFixed d y))) segs"
    using assms
    by (intro map_map_coords_agree) (auto simp add: roundNumber_unit simp del: roundNumber.simps)
  then show ?thesis
    by (simp add: svgpath_round_def numbers_def roundedTo_def map_coords_map_coords)
qed

lemma roundedTo_idem: "roundedTo d (roundedTo d segs) = roundedTo d segs"
  by (simp add: roundedTo_def map_coords_map_coords toFixed_idem)

lemma list_all2_toFixed:
  "list_all2 (\<lambda>a b. \<bar>a - b\<bar> \<le> 1 / (2 * 10 ^ d)) (map (toFixed d) vs) vs"
  by (induction vs) (simp_all add: toFixed_close)

lemma starts_with_MoveTo_finite:
  assumes "segs = MoveTo x0 y0 # rest"
  shows "pathXs segs \<noteq> [] \<and> pathYs segs \<noteq> []"
  using assms by (simp add: pathXs_def pathYs_def)

lemma normalize_finite:
  assumes "trim s \<noteq> []" and "svgpath s = Inr segs" and "segs \<noteq> []"
    and "minX (calculateBounds segs) = Fin mnX" and "minY (calculateBounds segs) = Fin mnY"
  shows "normalizePathTo01 svgpath (Some s) =
    (if boxWidth (calculateBounds segs) = Fin 0 \<and> boxHeight (calculateBounds segs) = Fin 0
     then Returned (Some ''M0.5,0.5'')
     else if boxWidth (calculateBounds segs) = Fin 0 then
       ToString (svgpath_round 6 (svgpath_translate (Fin (1 / 2)) (Fin 0)
         (svgpath_scale (Fin 1) (reciprocal (boxHeight (calculateBounds segs)))
           (svgpath_translate (Fin (- mnX)) (Fin (- mnY)) (numbers segs)))))
     else if boxHeight (calculateBounds segs) = Fin 0 then
       ToString (svgpath_round 6 (svgpath_translate (Fin 0) (Fin (1 / 2))
         (svgpath_scale (reciprocal (boxWidth (calculateBounds segs))) (Fin 1)
           (svgpath_translate (Fin (- mnX)) (Fin (- mnY)) (numbers segs)))))
     else
       ToString (svgpath_round 6
         (svgpath_scale (reciprocal (boxWidth (calculateBounds segs)))
           (reciprocal (boxHeight (calculateBounds segs)))
           (svgpath_translate (Fin (- mnX)) (Fin (- mnY)) (numbers segs)))))"
  using assms trim_nonempty [OF assms(1)]
  by (simp add: normalizePathTo01_def Let_def)

lemma scaled_axis:
  assumes "vs \<noteq> []" and "Min (set vs) < Max (set vs)" and "(v::real) \<in> set vs"
  shows "0 \<le> (v - Min (set vs)) * (1 / (Max (set vs) - Min (set vs)))
     \<and> (v - Min (set vs)) * (1 / (Max (set vs) - Min (set vs))) \<le> 1"
proof -
  have pos: "0 < Max (set vs) - Min (set vs)" using assms(2) by simp
  have "Min (set vs) \<le> v" and "v \<le> Max (set vs)" using assms(3) by simp_all
  then have "0 \<le> (v - Min (set vs)) * (1 / (Max (set vs) - Min (set vs)))"
    and "(v - Min (set vs)) * (1 / (Max (set vs) - Min (set vs))) \<le> 1"
    using pos by (simp_all add: divide_le_eq)
  then show ?thesis by simp
qed

lemma normalized_axis:
  assumes "vs \<noteq> []" and "Min (set vs) < Max (set vs)"
  shows "(\<forall>v\<in>set vs. 0 \<le> toFixed d ((v - Min (set vs)) * (1 / (Max (set vs) - Min (set vs))))
            \<and> toFixed d ((v - Min (set vs)) * (1 / (Max (set vs) - Min (set vs)))) \<le> 1)
     \<and> (\<exists>v\<in>set vs. toFixed d ((v - Min (set vs)) * (1 / (Max (set vs) - Min (set vs)))) = 0)
     \<and> (\<exists>v\<in>set vs. toFixed d ((v - Min (set vs)) * (1 / (Max (set vs) - Min (set vs)))) = 1)"
proof -
  let ?lo = "Min (set vs)" and ?hi = "Max (set vs)"
  have fin: "finite (set vs)" and ne: "set vs \<noteq> {}" using assms(1) by simp_all
  have pos: "0 < ?hi - ?lo" using assms(2) by simp
  have A: "0 \<le> toFixed d ((v - ?lo) * (1 / (?hi - ?lo))) \<and> toFixed d ((v - ?lo) * (1 / (?hi - ?lo))) \<le> 1"
    if "v \<in> set vs" for v
  proof -
    have "?lo \<le> v" and "v \<le> ?hi" using that fin by simp_all
    then have "0 \<le> (v - ?lo) * (1 / (?hi - ?lo))" and "(v - ?lo) * (1 / (?hi - ?lo)) \<le> 1"
      using pos by (simp_all add: divide_le_eq)
    then show ?thesis by (rule toFixed_unit)
  qed
  have lo: "?lo \<in> set vs" using fin ne by (rule Min_in)
  have hi: "?hi \<in> set vs" using fin ne by (rule Max_in)
  have B: "toFixed d ((?lo - ?lo) * (1 / (?hi - ?lo))) = 0" by (simp add: toFixed_0)
  have C: "toFixed d ((?hi - ?lo) * (1 / (?hi - ?lo))) = 1" using pos by (simp add: toFixed_1)
  show ?thesis using A B C lo hi by blast
qed

lemma normalized_axis_map:
  assumes "vs \<noteq> []" and "Min (set vs) < Max (set vs)"
  shows "(\<forall>x\<in>set (map (\<lambda>v. toFixed d ((v - Min (set vs)) * (1 / (Max (set vs) - Min (set vs))))) vs).
            0 \<le> x \<and> x \<le> 1)
     \<and> 0 \<in> set (map (\<lambda>v. toFixed d ((v - Min (set vs)) * (1 / (Max (set vs) - Min (set vs))))) vs)
     \<and> 1 \<in> set (map (\<lambda>v. toFixed d ((v - Min (set vs)) * (1 / (Max (set vs) - Min (set vs))))) vs)"
proof -
  note N = normalized_axis [OF assms, of d]
  show ?thesis
    unfolding set_map
  proof (intro conjI ballI)
    fix x
    assume "x \<in> (\<lambda>v. toFixed d ((v - Min (set vs)) * (1 / (Max (set vs) - Min (set vs))))) ` set vs"
    then obtain v where "v \<in> set vs"
      and "x = toFixed d ((v - Min (set vs)) * (1 / (Max (set vs) - Min (set vs))))" by (rule imageE)
    with N show "0 \<le> x" and "x \<le> 1" by blast+
  next
    from N obtain a where "a \<in> set vs"
      and "toFixed d ((a - Min (set vs)) * (1 / (Max (set vs) - Min (set vs)))) = 0" by blast
    then show "0 \<in> (\<lambda>v. toFixed d ((v - Min (set vs)) * (1 / (Max (set vs) - Min (set vs))))) ` set vs"
      by (intro image_eqI [of _ _ a]) simp_all
  next
    from N obtain b where "b \<in> set vs"
      and "toFixed d ((b - Min (set vs)) * (1 / (Max (set vs) - Min (set vs)))) = 1" by blast
    then show "1 \<in> (\<lambda>v. toFixed d ((v - Min (set vs)) * (1 / (Max (set vs) - Min (set vs))))) ` set vs"
      by (intro image_eqI [of _ _ b]) simp_all
  qed
qed


lemma map_coords_id: "map_coords (\<lambda>x. x) (\<lambda>y. y) a = a"
  by (cases a) simp_all

lemma map_map_coords_id: "map (map_coords (\<lambda>x. x) (\<lambda>y. y)) segs = segs"
  by (induction segs) (simp_all add: map_coords_id)

section \<open>The bounding box calculator\<close>

text \<open>
  C5. A \<open>HorizontalLineTo\<close> folds its x into \<open>minX\<close> and \<open>maxX\<close> and leaves \<open>minY\<close> and
  \<open>maxY\<close> as they were; a \<open>VerticalLineTo\<close> folds its y into \<open>minY\<close> and \<open>maxY\<close> and leaves
  \<open>minX\<close> and \<open>maxX\<close> as they were; a \<open>ClosePath\<close> changes nothing. So, for every
  sequence, the y extent of the box is the same with the horizontal segments removed, the
  x extent the same with the vertical segments removed, and the whole box the same
  with the \<open>ClosePath\<close> segments removed.
\<close>

theorem bounds_fold_moved_axis_only:
  "minX (step t (HorizontalLineTo x)) = Math_min [minX t, Fin x]
   \<and> maxX (step t (HorizontalLineTo x)) = Math_max [maxX t, Fin x]
   \<and> minY (step t (HorizontalLineTo x)) = minY t
   \<and> maxY (step t (HorizontalLineTo x)) = maxY t
   \<and> minY (step t (VerticalLineTo y)) = Math_min [minY t, Fin y]
   \<and> maxY (step t (VerticalLineTo y)) = Math_max [maxY t, Fin y]
   \<and> minX (step t (VerticalLineTo y)) = minX t
   \<and> maxX (step t (VerticalLineTo y)) = maxX t
   \<and> step t ClosePath = t
   \<and> minY (calculateBounds (filter (\<lambda>a. command a \<noteq> CHR ''H'') segs)) = minY (calculateBounds segs)
   \<and> maxY (calculateBounds (filter (\<lambda>a. command a \<noteq> CHR ''H'') segs)) = maxY (calculateBounds segs)
   \<and> minX (calculateBounds (filter (\<lambda>a. command a \<noteq> CHR ''V'') segs)) = minX (calculateBounds segs)
   \<and> maxX (calculateBounds (filter (\<lambda>a. command a \<noteq> CHR ''V'') segs)) = maxX (calculateBounds segs)
   \<and> calculateBounds (filter (\<lambda>a. a \<noteq> ClosePath) segs) = calculateBounds segs"
  by (simp add: calculateBounds_without_ClosePath calculateBounds_without_H
      calculateBounds_without_V)

text \<open>
  C6, as stated, fails: after \<open>M1,2 L3,4 Z\<close> the current point of \<open>calculateBounds\<close> is
  \<open>(3, 4)\<close>, the end of the line, not \<open>(1, 2)\<close>, the point of the last \<open>MoveTo\<close>.
\<close>

theorem current_point_counterexample:
  "currentX (walk initial [MoveTo 1 2, LineTo 3 4, ClosePath]) = 3
   \<and> currentY (walk initial [MoveTo 1 2, LineTo 3 4, ClosePath]) = 4"
  by (simp add: walk_def initial_def)

text \<open>
  C6, amended. Every segment other than \<open>ClosePath\<close> moves the current point to its final
  coordinate pair, where a \<open>HorizontalLineTo\<close> keeps the current y and a \<open>VerticalLineTo\<close>
  keeps the current x; a \<open>ClosePath\<close> leaves the current point, and the whole state of the
  traversal, where it was.
\<close>

theorem current_point_rules:
  "(currentX (step t (MoveTo x y)), currentY (step t (MoveTo x y))) = (x, y)
   \<and> (currentX (step t (LineTo x y)), currentY (step t (LineTo x y))) = (x, y)
   \<and> (currentX (step t (HorizontalLineTo x)), currentY (step t (HorizontalLineTo x))) = (x, currentY t)
   \<and> (currentX (step t (VerticalLineTo y)), currentY (step t (VerticalLineTo y))) = (currentX t, y)
   \<and> (currentX (step t (CubicCurve x1 y1 x2 y2 x y)), currentY (step t (CubicCurve x1 y1 x2 y2 x y))) = (x, y)
   \<and> (currentX (step t (SmoothCubicCurve x2 y2 x y)), currentY (step t (SmoothCubicCurve x2 y2 x y))) = (x, y)
   \<and> (currentX (step t (QuadraticCurve x1 y1 x y)), currentY (step t (QuadraticCurve x1 y1 x y))) = (x, y)
   \<and> (currentX (step t (SmoothQuadraticCurve x y)), currentY (step t (SmoothQuadraticCurve x y))) = (x, y)
   \<and> (currentX (step t ClosePath), currentY (step t ClosePath)) = (currentX t, currentY t)
   \<and> walk t (segs @ [ClosePath]) = walk t segs"
  by (simp add: walk_def)

section \<open>The early returns of normalizePathTo01\<close>

text \<open>
  C7. The claim is right and the code misses it. The \<open>catch\<close> of \<open>normalizePathTo01\<close> does
  return the text it was given when svgpath throws (\<open>thrown_error_returns_text\<close>), but a
  malformed text does not make svgpath throw: the error goes to \<open>path.err\<close>, which is
  never read, and the segments parsed before the error are normalised. For \<open>M10,1x L5\<close>
  the parsed prefix is \<open>M10,1\<close>, a single point, and the result is \<open>M0.5,0.5\<close>; for
  \<open>M10,10 L20,20 X5\<close> the prefix \<open>M10,10 L20,20\<close> is normalised to \<open>M 0 0, L 1 1\<close>. In both
  runs the text itself is not returned.
\<close>

theorem malformed_text_normalised_from_prefix:
  "normalizePathTo01 (yields [MoveTo 10 1]) (Some ''M10,1x L5'') = Returned (Some ''M0.5,0.5'')
   \<and> normalizePathTo01 (yields [MoveTo 10 10, LineTo 20 20]) (Some ''M10,10 L20,20 X5'')
       = ToString (numbers [MoveTo 0 0, LineTo 1 1])"
  by (simp add: normalizePathTo01_def Let_def trim_def isWhiteSpace_def yields_def
      boxWidth_def boxHeight_def calculateBounds_eq pathXs_def pathYs_def numbers_def
      svgpath_round_def svgpath_scale_def svgpath_translate_def toFixed_def double_def
      overflowThreshold_def)

lemma thrown_error_returns_text:
  "svgpath s = Inl e \<Longrightarrow> normalizePathTo01 svgpath (Some s) = Returned (Some s)"
  by (simp add: normalizePathTo01_def)

text \<open>
  C10. For a text that is empty, or has white space only, or decomposes into no segment,
  \<open>normalizePathTo01\<close> returns the text it was given: it does not throw and does not
  return \<open>M0.5,0.5\<close>.
\<close>

theorem empty_input_returned_unchanged:
  "s = [] \<or> trim s = [] \<or> svgpath s = Inr [] \<Longrightarrow>
     normalizePathTo01 svgpath (Some s) = Returned (Some s)"
  by (auto simp add: normalizePathTo01_def)

theorem empty_input_returned_unchanged_witness:
  "trim [CHR 0x20, CHR 0x09, CHR 0x0A] = []
   \<and> normalizePathTo01 throws (Some []) = Returned (Some [])
   \<and> normalizePathTo01 throws (Some [CHR 0x20, CHR 0x09, CHR 0x0A])
       = Returned (Some [CHR 0x20, CHR 0x09, CHR 0x0A])
   \<and> normalizePathTo01 (yields []) (Some ''z'') = Returned (Some ''z'')"
  using empty_input_returned_unchanged [of "[]" throws]
    empty_input_returned_unchanged [of "[CHR 0x20, CHR 0x09, CHR 0x0A]" throws]
    empty_input_returned_unchanged [of "''z''" "yields []"]
  by (simp add: trim_def isWhiteSpace_def yields_def)

section \<open>The degenerate boxes\<close>

text \<open>
  C2. For a path whose bounding box has width 0 and height 0, \<open>normalizePathTo01\<close> returns
  the literal \<open>M0.5,0.5\<close>; nothing is scaled.
\<close>

theorem single_point_center:
  assumes "trim s \<noteq> []" and "svgpath s = Inr segs"
    and "boxWidth (calculateBounds segs) = Fin 0"
    and "boxHeight (calculateBounds segs) = Fin 0"
  shows "normalizePathTo01 svgpath (Some s) = Returned (Some ''M0.5,0.5'')"
proof -
  have "segs \<noteq> []" using assms(3) by (auto simp add: boxWidth_Nil)
  moreover have "s \<noteq> []" using assms(1) by (auto simp add: trim_def)
  ultimately show ?thesis using assms by (simp add: normalizePathTo01_def)
qed

theorem single_point_center_witness:
  "trim ''M5,5 L5,5 Z'' \<noteq> []
   \<and> yields [MoveTo 5 5, LineTo 5 5, ClosePath] ''M5,5 L5,5 Z''
       = Inr [MoveTo 5 5, LineTo 5 5, ClosePath]
   \<and> boxWidth (calculateBounds [MoveTo 5 5, LineTo 5 5, ClosePath]) = Fin 0
   \<and> boxHeight (calculateBounds [MoveTo 5 5, LineTo 5 5, ClosePath]) = Fin 0
   \<and> normalizePathTo01 (yields [MoveTo 5 5, LineTo 5 5, ClosePath]) (Some ''M5,5 L5,5 Z'')
       = Returned (Some ''M0.5,0.5'')"
  using single_point_center [of "''M5,5 L5,5 Z''" "yields [MoveTo 5 5, LineTo 5 5, ClosePath]"
      "[MoveTo 5 5, LineTo 5 5, ClosePath]"]
  by (simp add: trim_def isWhiteSpace_def yields_def boxWidth_def boxHeight_def
      calculateBounds_eq pathXs_def pathYs_def double_unit)




section \<open>The normal case\<close>

text \<open>
  C1, as stated, fails: \<open>M-1e308,0 L1e308,1\<close> has a width that overflows to \<open>Infinity\<close>,
  which is above 0, and height 1; \<open>1 / width\<close> is then 0, and every x of the output is 0:
  the maximum on the x axis is not 1.
\<close>

theorem normal_case_overflow_counterexample:
  "boxWidth (calculateBounds [MoveTo (- (10 ^ 308)) 0, LineTo (10 ^ 308) 1]) = PInf
   \<and> boxHeight (calculateBounds [MoveTo (- (10 ^ 308)) 0, LineTo (10 ^ 308) 1]) = Fin 1
   \<and> normalizePathTo01 (yields [MoveTo (- (10 ^ 308)) 0, LineTo (10 ^ 308) 1])
        (Some ''M-1e308,0 L1e308,1'')
       = ToString (numbers [MoveTo 0 0, LineTo 0 1])"
  by (simp add: normalizePathTo01_def Let_def trim_def isWhiteSpace_def yields_def
      boxWidth_def boxHeight_def calculateBounds_eq pathXs_def pathYs_def numbers_def
      svgpath_round_def svgpath_scale_def svgpath_translate_def toFixed_def double_def
      overflowThreshold_def)

text \<open>
  C1, amended. For a path whose bounding box has a width above 0 and a height above 0
  that are finite and have finite reciprocals (none of \<open>maxX - minX\<close>, \<open>maxY - minY\<close>,
  \<open>1 / width\<close>, \<open>1 / height\<close> overflows), \<open>normalizePathTo01\<close> returns the serialisation of
  the sequence in which every x, of an end point or of a control point, has become
  \<open>(x - minX) * (1 / width)\<close> rounded to 6 decimals, and every y
  \<open>(y - minY) * (1 / height)\<close> rounded to 6 decimals. Every coordinate of that sequence
  lies in \<open>[0, 1]\<close>, and on each axis the values 0 and 1 both occur.
\<close>

theorem normal_case_unit_square:
  assumes "trim s \<noteq> []" and "svgpath s = Inr segs"
    and "minX (calculateBounds segs) = Fin mnX" and "minY (calculateBounds segs) = Fin mnY"
    and "boxWidth (calculateBounds segs) = Fin w" and "0 < w"
    and "reciprocal (Fin w) = Fin (1 / w)"
    and "boxHeight (calculateBounds segs) = Fin h" and "0 < h"
    and "reciprocal (Fin h) = Fin (1 / h)"
  shows "\<exists>out. normalizePathTo01 svgpath (Some s) = ToString (numbers out)
     \<and> out = map (map_coords (\<lambda>x. toFixed 6 ((x - mnX) * (1 / w)))
                              (\<lambda>y. toFixed 6 ((y - mnY) * (1 / h)))) segs
     \<and> (\<forall>x\<in>set (pathXs out). 0 \<le> x \<and> x \<le> 1) \<and> 0 \<in> set (pathXs out) \<and> 1 \<in> set (pathXs out)
     \<and> (\<forall>y\<in>set (pathYs out). 0 \<le> y \<and> y \<le> 1) \<and> 0 \<in> set (pathYs out) \<and> 1 \<in> set (pathYs out)"
proof -
  let ?xs = "pathXs segs" and ?ys = "pathYs segs"
  note W = finite_width [OF assms(5)] and H = finite_height [OF assms(8)]
  have mnX: "mnX = Min (set ?xs)" and w: "w = Max (set ?xs) - Min (set ?xs)"
    using W assms(3) by simp_all
  have mnY: "mnY = Min (set ?ys)" and h: "h = Max (set ?ys) - Min (set ?ys)"
    using H assms(4) by simp_all
  have ne: "segs \<noteq> []" using W by (simp add: pathXs_nonempty)
  have xs: "?xs \<noteq> []" "Min (set ?xs) < Max (set ?xs)" using W assms(6) w by simp_all
  have ys: "?ys \<noteq> []" "Min (set ?ys) < Max (set ?ys)" using H assms(9) h by simp_all
  let ?pre = "map (map_coords (\<lambda>x. (x + - mnX) * (1 / w)) (\<lambda>y. (y + - mnY) * (1 / h))) segs"
  let ?out = "map (map_coords (\<lambda>x. toFixed 6 ((x - mnX) * (1 / w)))
                              (\<lambda>y. toFixed 6 ((y - mnY) * (1 / h)))) segs"
  have preX: "\<forall>x\<in>set (pathXs ?pre). 0 \<le> x \<and> x \<le> 1"
    unfolding pathXs_map_coords mnX w using scaled_axis [OF xs] by auto
  have preY: "\<forall>y\<in>set (pathYs ?pre). 0 \<le> y \<and> y \<le> 1"
    unfolding pathYs_map_coords mnY h using scaled_axis [OF ys] by auto
  have "normalizePathTo01 svgpath (Some s) = ToString (svgpath_round 6 (numbers ?pre))"
    using normalize_finite [of s svgpath segs mnX mnY] assms ne
    by (simp add: scaled_numbers)
  also have "svgpath_round 6 (numbers ?pre) = numbers (roundedTo 6 ?pre)"
    using preX preY by (rule round_numbers)
  also have "roundedTo 6 ?pre = ?out"
    by (simp add: roundedTo_def map_coords_map_coords)
  finally have run: "normalizePathTo01 svgpath (Some s) = ToString (numbers ?out)" .
  have X: "(\<forall>x\<in>set (pathXs ?out). 0 \<le> x \<and> x \<le> 1) \<and> 0 \<in> set (pathXs ?out) \<and> 1 \<in> set (pathXs ?out)"
    using xs unfolding pathXs_map_coords mnX w by (rule normalized_axis_map)
  have Y: "(\<forall>y\<in>set (pathYs ?out). 0 \<le> y \<and> y \<le> 1) \<and> 0 \<in> set (pathYs ?out) \<and> 1 \<in> set (pathYs ?out)"
    using ys unfolding pathYs_map_coords mnY h by (rule normalized_axis_map)
  show ?thesis using run X Y by blast
qed

theorem normal_case_unit_square_witness:
  "trim ''M10,10 L110,10 L110,60 L10,60 Z'' \<noteq> []
   \<and> minX (calculateBounds [MoveTo 10 10, LineTo 110 10, LineTo 110 60, LineTo 10 60, ClosePath]) = Fin 10
   \<and> minY (calculateBounds [MoveTo 10 10, LineTo 110 10, LineTo 110 60, LineTo 10 60, ClosePath]) = Fin 10
   \<and> boxWidth (calculateBounds [MoveTo 10 10, LineTo 110 10, LineTo 110 60, LineTo 10 60, ClosePath]) = Fin 100
   \<and> boxHeight (calculateBounds [MoveTo 10 10, LineTo 110 10, LineTo 110 60, LineTo 10 60, ClosePath]) = Fin 50
   \<and> reciprocal (Fin 100) = Fin (1 / 100) \<and> reciprocal (Fin 50) = Fin (1 / 50)
   \<and> normalizePathTo01 (yields [MoveTo 10 10, LineTo 110 10, LineTo 110 60, LineTo 10 60, ClosePath])
        (Some ''M10,10 L110,10 L110,60 L10,60 Z'')
       = ToString (numbers [MoveTo 0 0, LineTo 1 0, LineTo 1 1, LineTo 0 1, ClosePath])"
  using normal_case_unit_square [of "''M10,10 L110,10 L110,60 L10,60 Z''"
      "yields [MoveTo 10 10, LineTo 110 10, LineTo 110 60, LineTo 10 60, ClosePath]"
      "[MoveTo 10 10, LineTo 110 10, LineTo 110 60, LineTo 10 60, ClosePath]" 10 10 100 50]
  by (simp add: trim_def isWhiteSpace_def yields_def boxWidth_def boxHeight_def
      calculateBounds_eq pathXs_def pathYs_def toFixed_def double_def overflowThreshold_def)

section \<open>Normalising twice\<close>

text \<open>
  C8. For a sequence whose bounding box is already \<open>[0, 1] x [0, 1]\<close>, \<open>normalizePathTo01\<close>
  returns the serialisation of the same sequence rounded to 6 decimals: the command
  letters are the same, every coordinate differs from the one it had by at most
  \<open>0.0000005\<close>, and a sequence that had been rounded to 6 decimals before, as every
  sequence that \<open>normalizePathTo01\<close> serialises has, is returned as it is.
\<close>

theorem idempotent_on_unit_box:
  assumes "trim s \<noteq> []" and "svgpath s = Inr segs"
    and "calculateBounds segs = \<lparr>minX = Fin 0, minY = Fin 0, maxX = Fin 1, maxY = Fin 1\<rparr>"
  shows "\<exists>out. normalizePathTo01 svgpath (Some s) = ToString (numbers out)
     \<and> out = roundedTo 6 segs
     \<and> map command out = map command segs
     \<and> list_all2 (\<lambda>a b. \<bar>a - b\<bar> \<le> 1 / 2000000) (pathXs out) (pathXs segs)
     \<and> list_all2 (\<lambda>a b. \<bar>a - b\<bar> \<le> 1 / 2000000) (pathYs out) (pathYs segs)
     \<and> (\<forall>before. segs = roundedTo 6 before \<longrightarrow> out = segs)"
proof -
  have ne: "segs \<noteq> []" using assms(3) by (auto simp add: calculateBounds_Nil)
  have W: "boxWidth (calculateBounds segs) = Fin 1" and H: "boxHeight (calculateBounds segs) = Fin 1"
    using assms(3) by (simp_all add: boxWidth_def boxHeight_def double_unit)
  note Wf = finite_width [OF W] and Hf = finite_height [OF H]
  have mn: "Min (set (pathXs segs)) = 0" "Min (set (pathYs segs)) = 0"
    using Wf Hf assms(3) by simp_all
  then have mx: "Max (set (pathXs segs)) = 1" "Max (set (pathYs segs)) = 1"
    using Wf Hf by simp_all
  have inX: "\<forall>x\<in>set (pathXs segs). 0 \<le> x \<and> x \<le> 1"
  proof
    fix x assume x: "x \<in> set (pathXs segs)"
    then have "Min (set (pathXs segs)) \<le> x" and "x \<le> Max (set (pathXs segs))" by simp_all
    then show "0 \<le> x \<and> x \<le> 1" by (simp add: mn mx)
  qed
  have inY: "\<forall>y\<in>set (pathYs segs). 0 \<le> y \<and> y \<le> 1"
  proof
    fix y assume y: "y \<in> set (pathYs segs)"
    then have "Min (set (pathYs segs)) \<le> y" and "y \<le> Max (set (pathYs segs))" by simp_all
    then show "0 \<le> y \<and> y \<le> 1" by (simp add: mn mx)
  qed
  have id: "map (map_coords (\<lambda>x. (x + - 0) * 1) (\<lambda>y. (y + - 0) * 1)) segs = segs"
    by (simp add: map_map_coords_id)
  have "normalizePathTo01 svgpath (Some s) = ToString (svgpath_round 6 (numbers segs))"
    using normalize_finite [of s svgpath segs 0 0] assms ne W H id
    by (simp add: scaled_numbers double_unit)
  also have "svgpath_round 6 (numbers segs) = numbers (roundedTo 6 segs)"
    using inX inY by (rule round_numbers)
  finally have run: "normalizePathTo01 svgpath (Some s) = ToString (numbers (roundedTo 6 segs))" .
  have X: "list_all2 (\<lambda>a b. \<bar>a - b\<bar> \<le> 1 / 2000000) (pathXs (roundedTo 6 segs)) (pathXs segs)"
    using list_all2_toFixed [of 6 "pathXs segs"] by (simp add: roundedTo_def pathXs_map_coords)
  have Y: "list_all2 (\<lambda>a b. \<bar>a - b\<bar> \<le> 1 / 2000000) (pathYs (roundedTo 6 segs)) (pathYs segs)"
    using list_all2_toFixed [of 6 "pathYs segs"] by (simp add: roundedTo_def pathYs_map_coords)
  have F: "\<forall>before. segs = roundedTo 6 before \<longrightarrow> roundedTo 6 segs = segs"
    by (auto simp add: roundedTo_idem)
  show ?thesis using run X Y F command_roundedTo [of 6 segs] by blast
qed

theorem idempotent_on_unit_box_witness:
  "trim ''M0 0L1 0.333333 0.5 1Z'' \<noteq> []
   \<and> calculateBounds [MoveTo 0 0, LineTo 1 (333333 / 1000000), LineTo (1 / 2) 1, ClosePath]
       = \<lparr>minX = Fin 0, minY = Fin 0, maxX = Fin 1, maxY = Fin 1\<rparr>
   \<and> [MoveTo 0 0, LineTo 1 (333333 / 1000000), LineTo (1 / 2) 1, ClosePath]
       = roundedTo 6 [MoveTo 0 0, LineTo 1 (1 / 3), LineTo (1 / 2) 1, ClosePath]
   \<and> normalizePathTo01 (yields [MoveTo 0 0, LineTo 1 (333333 / 1000000), LineTo (1 / 2) 1, ClosePath])
        (Some ''M0 0L1 0.333333 0.5 1Z'')
       = ToString (numbers [MoveTo 0 0, LineTo 1 (333333 / 1000000), LineTo (1 / 2) 1, ClosePath])"
  using idempotent_on_unit_box [of "''M0 0L1 0.333333 0.5 1Z''"
      "yields [MoveTo 0 0, LineTo 1 (333333 / 1000000), LineTo (1 / 2) 1, ClosePath]"
      "[MoveTo 0 0, LineTo 1 (333333 / 1000000), LineTo (1 / 2) 1, ClosePath]"]
  by (simp add: trim_def isWhiteSpace_def yields_def
      calculateBounds_eq pathXs_def pathYs_def roundedTo_def toFixed_def)

section \<open>Segment count and command letters\<close>

text \<open>
  C9, as stated, fails: the two segments \<open>M5,5 L5,5\<close>, of command letters \<open>M\<close> and \<open>L\<close>,
  have a single point as bounding box, and \<open>normalizePathTo01\<close> returns the literal
  \<open>M0.5,0.5\<close>, one \<open>M\<close> command.
\<close>

theorem commands_kept_counterexample:
  "normalizePathTo01 (yields [MoveTo 5 5, LineTo 5 5]) (Some ''M5,5 L5,5'')
     = Returned (Some ''M0.5,0.5'')
   \<and> map command [MoveTo 5 5, LineTo 5 5] = ''ML''"
  by (simp add: trim_def isWhiteSpace_def yields_def boxWidth_def boxHeight_def
      calculateBounds_eq pathXs_def pathYs_def normalizePathTo01_def Let_def double_unit)

text \<open>
  C9, amended. For a sequence that starts with a \<open>MoveTo\<close>, as every non-empty sequence
  of the decomposer does: when its bounding box is a single point, \<open>normalizePathTo01\<close>
  returns the literal \<open>M0.5,0.5\<close>, whatever the segments were; otherwise it returns the
  serialisation of a sequence with as many segments and the same command letters in the
  same order.
\<close>

theorem commands_kept_unless_single_point:
  assumes "trim s \<noteq> []" and "svgpath s = Inr segs" and "segs = MoveTo x0 y0 # rest"
  shows "if boxWidth (calculateBounds segs) = Fin 0 \<and> boxHeight (calculateBounds segs) = Fin 0
         then normalizePathTo01 svgpath (Some s) = Returned (Some ''M0.5,0.5'')
         else (\<exists>out. normalizePathTo01 svgpath (Some s) = ToString out
                 \<and> length out = length segs \<and> map command out = map command segs)"
proof -
  note F = starts_with_MoveTo_finite [OF assms(3)]
  have ne: "segs \<noteq> []" using assms(3) by simp
  let ?mnX = "Min (set (pathXs segs))" and ?mnY = "Min (set (pathYs segs))"
  have b: "minX (calculateBounds segs) = Fin ?mnX" "minY (calculateBounds segs) = Fin ?mnY"
    using F by (simp_all add: calculateBounds_eq)
  note N = normalize_finite [of s svgpath segs ?mnX ?mnY, OF assms(1,2) ne b]
  have L: "length out = length segs" if "map command out = map command segs" for out :: "jsnum segment list"
    using that by (rule map_eq_imp_length_eq)
  show ?thesis
    unfolding N
    by (auto simp add: command_svgpath_round command_svgpath_translate command_svgpath_scale
        command_numbers intro!: L)
qed

theorem commands_kept_unless_single_point_witness:
  "trim ''M1,2 H4 V9 Z'' \<noteq> []
   \<and> \<not> (boxWidth (calculateBounds [MoveTo 1 2, HorizontalLineTo 4, VerticalLineTo 9, ClosePath]) = Fin 0
        \<and> boxHeight (calculateBounds [MoveTo 1 2, HorizontalLineTo 4, VerticalLineTo 9, ClosePath]) = Fin 0)
   \<and> normalizePathTo01 (yields [MoveTo 1 2, HorizontalLineTo 4, VerticalLineTo 9, ClosePath])
        (Some ''M1,2 H4 V9 Z'')
       = ToString (numbers [MoveTo 0 0, HorizontalLineTo 1, VerticalLineTo 1, ClosePath])"
  using commands_kept_unless_single_point [of "''M1,2 H4 V9 Z''"
      "yields [MoveTo 1 2, HorizontalLineTo 4, VerticalLineTo 9, ClosePath]"
      "[MoveTo 1 2, HorizontalLineTo 4, VerticalLineTo 9, ClosePath]" 1 2
      "[HorizontalLineTo 4, VerticalLineTo 9, ClosePath]"]
  by (simp add: trim_def isWhiteSpace_def yields_def boxWidth_def boxHeight_def
      calculateBounds_eq pathXs_def pathYs_def normalizePathTo01_def Let_def numbers_def
      svgpath_round_def svgpath_scale_def svgpath_translate_def toFixed_def double_def
      overflowThreshold_def)

end
